theory Spec2Isabelle
  imports Complex_Main "HOL-Library.Word" "HOL-Library.Product_Lexorder"
begin

section \<open>Values of the program\<close>

text \<open>
  The module \<^verbatim>\<open>mage/image.py\<close> defines the classes \<^verbatim>\<open>Image\<close> and
  \<^verbatim>\<open>LayeredImage\<close> over numpy arrays. Exceptions of the source are values of
  \<open>error\<close>; a function that can raise returns \<open>error + 'a\<close>, \<open>Inl\<close> being
  the exception.
\<close>

datatype error = ValueError | TypeError | RuntimeError | IndexError

definition bindE :: "error + 'a \<Rightarrow> ('a \<Rightarrow> error + 'b) \<Rightarrow> error + 'b" where
  "bindE m f = (case m of Inl e \<Rightarrow> Inl e | Inr x \<Rightarrow> f x)"

type_synonym u8 = "8 word"

text \<open>
  A numpy array is its shape and its elements in row-major (C) order. numpy keeps
  \<open>length (data a) = prod_list (shape a)\<close>; \<open>nd_ok\<close> states it. Arrays are values
  here: a view is modelled by the elements it shows.
\<close>

record 'a ndarray =
  shape :: "nat list"
  data :: "'a list"

definition nd_ok :: "'a ndarray \<Rightarrow> bool" where
  "nd_ok a = (length (data a) = prod_list (shape a))"

subsection \<open>Indices\<close>

text \<open>
  A Python number in an index is an \<^verbatim>\<open>int\<close> or a \<^verbatim>\<open>float\<close>; a float is
  carried as the real number it denotes (NaN and the infinities are outside the
  model), and the model does no arithmetic on it. A slice has three optional bounds. The components of an
  index that the model covers are integers, floats, slices and \<^verbatim>\<open>Ellipsis\<close>; an
  index is a tuple of components or a single component.
\<close>

datatype num = PyInt int | PyFloat real

datatype slice = Slice (start: "num option") (stop: "num option") (step: "num option")

datatype icomp = IInt int | IFloat real | ISlice slice | IEllipsis

datatype index = Tuple "icomp list" | Single icomp

fun is_float :: "num option \<Rightarrow> bool" where
  "is_float (Some (PyFloat f)) = True"
| "is_float _ = False"

fun num_val :: "num \<Rightarrow> real" where
  "num_val (PyInt i) = real_of_int i"
| "num_val (PyFloat f) = f"

definition full_slice :: slice where
  "full_slice = Slice None None None"

text \<open>
  \<^verbatim>\<open>Image._flip_index\<close>: a tuple has its first two entries swapped (a tuple with
  fewer than two entries raises at \<^verbatim>\<open>index[1]\<close>), anything else becomes
  \<^verbatim>\<open>(slice(None), index)\<close>.
\<close>

fun flip_index :: "index \<Rightarrow> error + icomp list" where
  "flip_index (Tuple [a, b]) = Inr [b, a]"
| "flip_index (Tuple (a # b # rest)) = Inr (b # a # rest)"
| "flip_index (Tuple _) = Inl IndexError"
| "flip_index (Single i) = Inr [ISlice full_slice, i]"

text \<open>
  \<^verbatim>\<open>Image._is_pixel_addr\<close>: the loop over the components. An integer continues,
  a float returns False, a slice returns False when its start or its stop is a
  float; every other component falls through to the next iteration.
\<close>

fun is_pixel_addr :: "icomp list \<Rightarrow> bool" where
  "is_pixel_addr [] = True"
| "is_pixel_addr (IInt i # rest) = is_pixel_addr rest"
| "is_pixel_addr (IFloat f # rest) = False"
| "is_pixel_addr (ISlice s # rest) =
     (if is_float (start s) \<or> is_float (stop s) then False else is_pixel_addr rest)"
| "is_pixel_addr (IEllipsis # rest) = is_pixel_addr rest"

text \<open>The classification of one component, in the words of the specification.\<close>

fun spec_pixel_component :: "icomp \<Rightarrow> bool" where
  "spec_pixel_component (IInt i) = True"
| "spec_pixel_component (ISlice s) = (\<not> is_float (start s) \<and> \<not> is_float (stop s))"
| "spec_pixel_component _ = False"

fun float_bearing :: "icomp \<Rightarrow> bool" where
  "float_bearing (IFloat f) = True"
| "float_bearing (ISlice s) = (is_float (start s) \<or> is_float (stop s))"
| "float_bearing _ = False"


section \<open>The numpy operations the module uses\<close>

subsection \<open>Basic indexing\<close>

text \<open>
  A slice bound handed to numpy must be \<^verbatim>\<open>None\<close> or an integer; a float raises
  TypeError.
\<close>

fun as_index :: "num option \<Rightarrow> error + int option" where
  "as_index None = Inr None"
| "as_index (Some (PyInt i)) = Inr (Some i)"
| "as_index (Some (PyFloat f)) = Inl TypeError"

text \<open>
  Python's \<^verbatim>\<open>slice.indices\<close>: a negative bound counts from the end, and every
  bound is clamped to the axis. \<open>slice_range st sp k d\<close> lists the positions that
  \<^verbatim>\<open>range(start, stop, step)\<close> visits on an axis of length \<open>d\<close>, for a step
  \<open>k \<noteq> 0\<close>.
\<close>

definition clamp_bound :: "int \<Rightarrow> int \<Rightarrow> int \<Rightarrow> int \<Rightarrow> int" where
  "clamp_bound v n lower upper = (if v < 0 then max (v + n) lower else min v upper)"

definition slice_range :: "int option \<Rightarrow> int option \<Rightarrow> int \<Rightarrow> nat \<Rightarrow> nat list" where
  "slice_range st sp k d =
     (let n = int d;
          lower = (if k < 0 then - 1 else 0);
          upper = (if k < 0 then n - 1 else n);
          a = (case st of None \<Rightarrow> (if k < 0 then upper else lower)
                        | Some v \<Rightarrow> clamp_bound v n lower upper);
          b = (case sp of None \<Rightarrow> (if k < 0 then lower else upper)
                        | Some v \<Rightarrow> clamp_bound v n lower upper);
          len = (if k < 0 then (if b < a then (a - b - 1) div (- k) + 1 else 0)
                 else (if a < b then (b - a - 1) div k + 1 else 0))
      in map (\<lambda>j. nat (a + int j * k)) [0..<nat len])"

definition slice_indices :: "slice \<Rightarrow> nat \<Rightarrow> error + nat list" where
  "slice_indices s d =
     bindE (as_index (start s)) (\<lambda>st.
     bindE (as_index (stop s)) (\<lambda>sp.
     bindE (as_index (step s)) (\<lambda>k.
       let k' = (case k of None \<Rightarrow> 1 | Some v \<Rightarrow> v)
       in if k' = 0 then Inl ValueError else Inr (slice_range st sp k' d))))"

text \<open>
  An index component selects one position of its axis (an integer) or a list of
  positions (a slice).
\<close>

datatype sel = One nat | Many "nat list"

fun resolve :: "icomp \<Rightarrow> nat \<Rightarrow> error + sel" where
  "resolve (IInt i) d =
     (if - int d \<le> i \<and> i < int d then Inr (One (nat (if i < 0 then i + int d else i)))
      else Inl IndexError)"
| "resolve (ISlice s) d = bindE (slice_indices s d) (\<lambda>ks. Inr (Many ks))"
| "resolve (IFloat f) d = Inl IndexError"
| "resolve IEllipsis d = Inl IndexError"

fun is_ellipsis :: "icomp \<Rightarrow> bool" where
  "is_ellipsis IEllipsis = True"
| "is_ellipsis _ = False"

text \<open>
  An index may hold one \<^verbatim>\<open>Ellipsis\<close>, which stands for the full slices that are
  missing; an index without one is completed by full slices at its end. More
  components than axes raise IndexError.
\<close>

definition expand_index :: "icomp list \<Rightarrow> nat \<Rightarrow> error + icomp list" where
  "expand_index idx ndim =
     (let n_ell = length (filter is_ellipsis idx);
          n_real = length idx - n_ell;
          fill = replicate (ndim - n_real) (ISlice full_slice)
      in if 1 < n_ell then Inl IndexError
         else if ndim < n_real then Inl IndexError
         else if n_ell = 0 then Inr (idx @ fill)
         else Inr (takeWhile (\<lambda>c. \<not> is_ellipsis c) idx @ fill @
                   tl (dropWhile (\<lambda>c. \<not> is_ellipsis c) idx)))"

fun resolve_all :: "icomp list \<Rightarrow> nat list \<Rightarrow> error + sel list" where
  "resolve_all (c # cs) (d # ds) =
     bindE (resolve c d) (\<lambda>s. bindE (resolve_all cs ds) (\<lambda>ss. Inr (s # ss)))"
| "resolve_all _ _ = Inr []"

fun sel_shape :: "sel list \<Rightarrow> nat list" where
  "sel_shape [] = []"
| "sel_shape (One i # ss) = sel_shape ss"
| "sel_shape (Many ks # ss) = length ks # sel_shape ss"

text \<open>
  The positions in \<open>data\<close> of the selected elements, in the row-major order of
  the result: the stride of an axis is the product of the axes after it.
\<close>

fun offsets :: "nat list \<Rightarrow> sel list \<Rightarrow> nat \<Rightarrow> nat list" where
  "offsets (d # ds) (One i # ss) base = offsets ds ss (base + i * prod_list ds)"
| "offsets (d # ds) (Many ks # ss) base =
     concat (map (\<lambda>k. offsets ds ss (base + k * prod_list ds)) ks)"
| "offsets _ _ base = [base]"

definition select :: "'a ndarray \<Rightarrow> icomp list \<Rightarrow> error + sel list" where
  "select a idx =
     bindE (expand_index idx (length (shape a))) (\<lambda>idx'. resolve_all idx' (shape a))"

text \<open>\<^verbatim>\<open>a[idx]\<close>\<close>

definition nd_getitem :: "'a ndarray \<Rightarrow> icomp list \<Rightarrow> error + 'a ndarray" where
  "nd_getitem a idx =
     bindE (select a idx) (\<lambda>sels.
       Inr \<lparr>shape = sel_shape sels,
            data = map (\<lambda>p. data a ! p) (offsets (shape a) sels 0)\<rparr>)"

subsection \<open>Broadcasting and assignment\<close>

text \<open>
  Shapes are compared from their last axis: an axis of the source must equal the
  target's or be 1, and axes the source has in excess must be 1.
\<close>

fun compat_rev :: "nat list \<Rightarrow> nat list \<Rightarrow> bool" where
  "compat_rev [] ds = True"
| "compat_rev (s # ss) [] = (s = 1 \<and> compat_rev ss [])"
| "compat_rev (s # ss) (d # ds) = ((s = d \<or> s = 1) \<and> compat_rev ss ds)"

text \<open>
  \<open>bcast src dst xs\<close> repeats the elements \<open>xs\<close> of an array of shape \<open>src\<close>
  (with no more axes than \<open>dst\<close>) to the shape \<open>dst\<close>.
\<close>

fun bcast :: "nat list \<Rightarrow> nat list \<Rightarrow> 'a list \<Rightarrow> 'a list" where
  "bcast src [] xs = xs"
| "bcast src (d # ds) xs =
     (if length src \<le> length ds then concat (replicate d (bcast src ds xs))
      else (case src of
              [] \<Rightarrow> xs
            | s # ss \<Rightarrow>
                if s = 1 then concat (replicate d (bcast ss ds xs))
                else concat (map (\<lambda>k. bcast ss ds (take (prod_list ss) (drop (k * prod_list ss) xs)))
                                 [0..<d])))"

definition broadcast :: "'a ndarray \<Rightarrow> nat list \<Rightarrow> error + 'a list" where
  "broadcast v dst =
     (if compat_rev (rev (shape v)) (rev dst)
      then Inr (bcast (drop (length (shape v) - length dst) (shape v)) dst (data v))
      else Inl ValueError)"

text \<open>A Python tuple of channel values, as the one-dimensional array numpy makes of it.\<close>

definition of_tuple :: "'a list \<Rightarrow> 'a ndarray" where
  "of_tuple v = \<lparr>shape = [length v], data = v\<rparr>"

fun scatter :: "'a list \<Rightarrow> nat list \<Rightarrow> 'a list \<Rightarrow> 'a list" where
  "scatter xs (p # ps) (v # vs) = scatter (xs[p := v]) ps vs"
| "scatter xs _ _ = xs"

text \<open>
  \<^verbatim>\<open>a[idx] = v\<close> for a sequence \<open>v\<close>. An index made of integers only addresses
  one element, and numpy refuses to store a sequence there (TypeError).
\<close>

definition nd_setitem :: "'a ndarray \<Rightarrow> icomp list \<Rightarrow> 'a list \<Rightarrow> error + 'a ndarray" where
  "nd_setitem a idx v =
     bindE (select a idx) (\<lambda>sels.
       if sel_shape sels = [] then Inl TypeError
       else bindE (broadcast (of_tuple v) (sel_shape sels)) (\<lambda>vs.
         Inr (a\<lparr>data := scatter (data a) (offsets (shape a) sels 0) vs\<rparr>)))"


text \<open>
  \<^verbatim>\<open>np.full(dims, fill, dtype=np.uint8)\<close> for a tuple \<open>fill\<close>: a negative
  dimension and a fill that does not broadcast both raise ValueError.
\<close>

definition np_full :: "int list \<Rightarrow> 'a list \<Rightarrow> error + 'a ndarray" where
  "np_full dims fill =
     (if list_ex (\<lambda>d. d < 0) dims then Inl ValueError
      else bindE (broadcast (of_tuple fill) (map nat dims)) (\<lambda>xs.
             Inr \<lparr>shape = map nat dims, data = xs\<rparr>))"

text \<open>
  \<^verbatim>\<open>a.shape = shp\<close> on an array whose elements lie in memory in row-major order
  without gaps between the rows, as those of the arrays that \<^verbatim>\<open>__init__\<close> creates
  and of their alpha channel: the number of elements must stay the same. On a view
  with gaps (a sub-image cut out of a wider image) numpy refuses the assignment
  with AttributeError when the new shape would need a copy; arrays are values
  here, so that case is outside the model.
\<close>

definition set_shape :: "'a ndarray \<Rightarrow> nat list \<Rightarrow> error + 'a ndarray" where
  "set_shape a shp =
     (if prod_list shp = prod_list (shape a) then Inr (a\<lparr>shape := shp\<rparr>) else Inl ValueError)"

text \<open>
  \<^verbatim>\<open>np.append(a, b, axis=2)\<close> for a three-dimensional \<open>b\<close>: \<open>a\<close> must have
  three axes too and agree with \<open>b\<close> on the first two.
\<close>

definition append_axis2 :: "'a ndarray \<Rightarrow> 'a ndarray \<Rightarrow> error + 'a ndarray" where
  "append_axis2 a b =
     (case (shape a, shape b) of
        ([h, w, ca], [h', w', cb]) \<Rightarrow>
          if h = h' \<and> w = w'
          then Inr \<lparr>shape = [h, w, ca + cb],
                    data = concat (map (\<lambda>i. take ca (drop (i * ca) (data a)) @
                                              take cb (drop (i * cb) (data b)))
                                       [0..<h * w])\<rparr>
          else Inl ValueError
      | _ \<Rightarrow> Inl ValueError)"

definition nd_map :: "('a \<Rightarrow> 'b) \<Rightarrow> 'a ndarray \<Rightarrow> 'b ndarray" where
  "nd_map f a = \<lparr>shape = shape a, data = map f (data a)\<rparr>"

text \<open>\<^verbatim>\<open>ax + bx\<close> on two \<^verbatim>\<open>uint8\<close> arrays of one shape: the sum wraps at 256.\<close>

definition nd_add :: "u8 ndarray \<Rightarrow> u8 ndarray \<Rightarrow> u8 ndarray" where
  "nd_add a b = \<lparr>shape = shape a, data = map (\<lambda>(x, y). x + y) (zip (data a) (data b))\<rparr>"

definition shape_at :: "'a ndarray \<Rightarrow> nat \<Rightarrow> error + nat" where
  "shape_at a i = (if i < length (shape a) then Inr (shape a ! i) else Inl IndexError)"

subsection \<open>Grids and boolean masks\<close>

text \<open>
  A domain function returns two coordinate grids, two-dimensional arrays of
  floats; a mask is a two-dimensional array of booleans.
\<close>

record 'a grid =
  nrows :: nat
  ncols :: nat
  cells :: "'a list"

text \<open>\<^verbatim>\<open>g[m]\<close>: the shapes must agree.\<close>

definition grid_select :: "'a grid \<Rightarrow> bool grid \<Rightarrow> error + 'a list" where
  "grid_select g m =
     (if nrows m = nrows g \<and> ncols m = ncols g
      then Inr (map fst (filter snd (zip (cells g) (cells m))))
      else Inl IndexError)"

text \<open>
  \<^verbatim>\<open>a[m] = v\<close>: the mask must cover the first two axes of \<open>a\<close>; \<open>v\<close> is
  broadcast to one row per selected position.
\<close>

definition nd_setmask :: "'a ndarray \<Rightarrow> bool grid \<Rightarrow> 'a ndarray \<Rightarrow> error + 'a ndarray" where
  "nd_setmask a m v =
     (if take 2 (shape a) = [nrows m, ncols m]
      then let rest = drop 2 (shape a);
               cell = prod_list rest;
               hits = filter (\<lambda>j. cells m ! j) [0..<nrows m * ncols m]
           in bindE (broadcast v (length hits # rest)) (\<lambda>vs.
                Inr (a\<lparr>data := scatter (data a)
                                 (concat (map (\<lambda>j. map (\<lambda>c. j * cell + c) [0..<cell]) hits)) vs\<rparr>))
      else Inl IndexError)"


section \<open>The class Image\<close>

type_synonym domfn = "nat \<Rightarrow> nat \<Rightarrow> real grid \<times> real grid"

record image =
  pixels :: "u8 ndarray"
  domain :: "domfn option"

definition default_background :: "u8 list" where
  "default_background = [255, 255, 255, 255]"

text \<open>\<^verbatim>\<open>Image.__init__(width, height, domain, background, pixels)\<close>\<close>

definition Image_init ::
  "int option \<Rightarrow> int option \<Rightarrow> domfn option \<Rightarrow> u8 list \<Rightarrow> u8 ndarray option \<Rightarrow> error + image" where
  "Image_init w h dmn background px =
     (case px of
        Some p \<Rightarrow>
          if length (shape p) = 3 \<and> last (shape p) = 4
          then Inr \<lparr>pixels = p, domain = dmn\<rparr>
          else Inl ValueError
      | None \<Rightarrow>
          (case (w, h) of
             (Some wd, Some ht) \<Rightarrow>
               (let bg = (if length background = 3 then background @ [255] else background)
                in bindE (np_full [ht, wd, 4] bg) (\<lambda>p. Inr \<lparr>pixels = p, domain = dmn\<rparr>))
           | _ \<Rightarrow> Inl ValueError))"

definition width :: "image \<Rightarrow> error + nat" where
  "width img = shape_at (pixels img) 1"

definition height :: "image \<Rightarrow> error + nat" where
  "height img = shape_at (pixels img) 0"

definition color :: "image \<Rightarrow> error + u8 ndarray" where
  "color img =
     nd_getitem (pixels img)
       [ISlice full_slice, ISlice full_slice, ISlice (Slice (Some (PyInt 0)) (Some (PyInt 3)) None)]"

definition alpha :: "image \<Rightarrow> error + u8 ndarray" where
  "alpha img = nd_getitem (pixels img) [ISlice full_slice, ISlice full_slice, IInt 3]"

definition fromarray :: "u8 ndarray \<Rightarrow> error + image" where
  "fromarray px = Image_init None None None default_background (Some px)"

text \<open>
  \<^verbatim>\<open>Image._get_by_pixels\<close>: a result with three axes is wrapped as an Image,
  anything else is returned as the array it is.
\<close>

datatype getres = RImage image | RArray "u8 ndarray"

definition get_by_pixels :: "image \<Rightarrow> icomp list \<Rightarrow> error + getres" where
  "get_by_pixels img idx =
     bindE (nd_getitem (pixels img) idx) (\<lambda>px.
       if length (shape px) = 3 then bindE (fromarray px) (\<lambda>i. Inr (RImage i))
       else Inr (RArray px))"

text \<open>
  \<^verbatim>\<open>(xs, *_), YS = self._domain(...)\<close> takes the first row of the X grid and needs
  one; \<^verbatim>\<open>[it[0] for it in YS]\<close> takes the first entry of every row of the Y grid.
\<close>

definition first_row :: "'a grid \<Rightarrow> error + 'a list" where
  "first_row g = (if nrows g = 0 then Inl ValueError else Inr (take (ncols g) (cells g)))"

definition first_column :: "'a grid \<Rightarrow> error + 'a list" where
  "first_column g =
     (if 0 < nrows g \<and> ncols g = 0 then Inl IndexError
      else Inr (map (\<lambda>i. cells g ! (i * ncols g)) [0..<nrows g]))"

text \<open>
  \<^verbatim>\<open>sorted([(abs(x - b), i) for i, x in enumerate(xs)])\<close>, the tuples in
  lexicographic order, and \<^verbatim>\<open>d[0][1]\<close> on the sorted list; for a bound that is
  \<^verbatim>\<open>None\<close> the source takes \<^verbatim>\<open>[(None, None)][0][1]\<close>.

  The model does no arithmetic on floats. The value that the interpreter computes
  for \<^verbatim>\<open>abs(x - b)\<close>, from a coordinate \<open>x\<close> and a bound \<open>b\<close>, is the parameter
  \<open>absdiff x b\<close> of the read: in \<^verbatim>\<open>float64\<close> the difference is rounded, so
  coordinates whose exact differences are distinct can have equal computed ones.
  The computed values are of any linearly ordered type; a difference that is NaN
  has no place in an order and is outside the model, as is arithmetic that raises.
  One arithmetic serves both axes: the two grids of a domain are taken to hold
  numbers of one type.
\<close>

definition distances ::
  "(real \<Rightarrow> num \<Rightarrow> 'd::linorder) \<Rightarrow> real list \<Rightarrow> num \<Rightarrow> ('d \<times> nat) list" where
  "distances absdiff xs b = sort (map (\<lambda>(i, x). (absdiff x b, i)) (enumerate 0 xs))"

fun first_index :: "('d \<times> nat) list \<Rightarrow> error + num option" where
  "first_index [] = Inl IndexError"
| "first_index ((d, i) # rest) = Inr (Some (PyInt (int i)))"

definition snap ::
  "(real \<Rightarrow> num \<Rightarrow> 'd::linorder) \<Rightarrow> real list \<Rightarrow> num option \<Rightarrow> error + num option" where
  "snap absdiff xs b =
     (case b of None \<Rightarrow> Inr None | Some v \<Rightarrow> first_index (distances absdiff xs v))"

text \<open>
  Lines 203 to 234 of \<^verbatim>\<open>Image.__getitem__\<close>: the four bounds are snapped to
  pixel indices and the read is handed to \<^verbatim>\<open>_get_by_pixels\<close>.
\<close>

definition get_by_slices ::
  "(real \<Rightarrow> num \<Rightarrow> 'd::linorder) \<Rightarrow> image \<Rightarrow> domfn \<Rightarrow> slice \<Rightarrow> slice \<Rightarrow> error + getres" where
  "get_by_slices absdiff img dmn yslice xslice =
     bindE (width img) (\<lambda>w.
     bindE (height img) (\<lambda>h.
       (case dmn w h of
          (XS, YS) \<Rightarrow>
            bindE (first_row XS) (\<lambda>xs.
            bindE (first_column YS) (\<lambda>ys.
            bindE (snap absdiff xs (start xslice)) (\<lambda>x0.
            bindE (snap absdiff xs (stop xslice)) (\<lambda>x1.
            bindE (snap absdiff ys (stop yslice)) (\<lambda>y1.
            bindE (snap absdiff ys (start yslice)) (\<lambda>y0.
              get_by_pixels img [ISlice (Slice y1 y0 None), ISlice (Slice x0 x1 None)])))))))))"

text \<open>
  Lines 185 to 234: the read by mathematical points. It needs a domain, and the
  first two components of the flipped index must be slices.
\<close>

definition get_by_points ::
  "(real \<Rightarrow> num \<Rightarrow> 'd::linorder) \<Rightarrow> image \<Rightarrow> icomp list \<Rightarrow> error + getres" where
  "get_by_points absdiff img idx =
     (case domain img of
        None \<Rightarrow> Inl RuntimeError
      | Some dmn \<Rightarrow>
          (case idx of
             ISlice ys # ISlice xs # rest \<Rightarrow> get_by_slices absdiff img dmn ys xs
           | _ \<Rightarrow> Inl ValueError))"

text \<open>\<^verbatim>\<open>Image.__getitem__\<close>\<close>

definition getitem ::
  "(real \<Rightarrow> num \<Rightarrow> 'd::linorder) \<Rightarrow> image \<Rightarrow> index \<Rightarrow> error + getres" where
  "getitem absdiff img index =
     bindE (flip_index index) (\<lambda>idx.
       if is_pixel_addr idx then get_by_pixels img idx else get_by_points absdiff img idx)"

text \<open>\<^verbatim>\<open>Image.__setitem__\<close>: the image after the assignment.\<close>

definition setitem :: "image \<Rightarrow> index \<Rightarrow> u8 list \<Rightarrow> error + image" where
  "setitem img index v =
     (let val = (if length v = 3 then v @ [255] else v)
      in bindE (flip_index index) (\<lambda>idx.
         bindE (nd_setitem (pixels img) idx val) (\<lambda>p. Inr (img\<lparr>pixels := p\<rparr>))))"

text \<open>
  \<^verbatim>\<open>Image.__neg__\<close>. \<^verbatim>\<open>np.vectorize\<close> hands the channel values to the lambda as
  Python integers, so \<^verbatim>\<open>abs(v - 255)\<close> is computed without wrap-around and then
  stored as \<^verbatim>\<open>uint8\<close>.
\<close>

definition vneg :: "u8 \<Rightarrow> u8" where
  "vneg v = word_of_int \<bar>uint v - 255\<bar>"

definition neg :: "image \<Rightarrow> error + image" where
  "neg img =
     bindE (alpha img) (\<lambda>alphas.
     bindE (width img) (\<lambda>w.
     bindE (height img) (\<lambda>h.
     bindE (set_shape alphas [w, h, 1]) (\<lambda>alphas'.
     bindE (color img) (\<lambda>colors.
     bindE (append_axis2 (nd_map vneg colors) alphas') (\<lambda>px.
       Image_init None None None default_background (Some px)))))))"

text \<open>\<^verbatim>\<open>Image.__and__\<close>; the right operand is an Image or some other object.\<close>

datatype pyobj = ObjImage image | ObjOther

definition and_op :: "image \<Rightarrow> pyobj \<Rightarrow> error + image" where
  "and_op img other =
     (case other of
        ObjOther \<Rightarrow> Inl TypeError
      | ObjImage oth \<Rightarrow>
          if shape (pixels img) = shape (pixels oth)
          then Image_init None None None default_background
                 (Some (nd_add (pixels img) (pixels oth)))
          else Inl ValueError)"

text \<open>
  \<^verbatim>\<open>Image.__call__\<close>. A drawable carries a domain function, a mask function
  and a colour that is a tuple or a function of the selected coordinates; the
  mask and colour functions are code of the caller and may raise. The result is
  the exception, if any, and the image as the call leaves it.
\<close>

datatype colorfn = ColTuple "u8 list" | ColFun "real list \<Rightarrow> real list \<Rightarrow> error + u8 ndarray"

record drawable =
  domainfunc :: domfn
  maskfunc :: "real grid \<Rightarrow> real grid \<Rightarrow> error + bool grid"
  colorfunc :: colorfn

definition grid_source :: "image \<Rightarrow> drawable \<Rightarrow> bool \<Rightarrow> error + domfn" where
  "grid_source img f use_host_domain =
     (if use_host_domain
      then (case domain img of None \<Rightarrow> Inl RuntimeError | Some d \<Rightarrow> Inr d)
      else Inr (domainfunc f))"

definition composite :: "image \<Rightarrow> drawable \<Rightarrow> bool \<Rightarrow> error + u8 ndarray" where
  "composite img f use_host_domain =
     bindE (grid_source img f use_host_domain) (\<lambda>dmn.
     bindE (width img) (\<lambda>w.
     bindE (height img) (\<lambda>h.
       (case dmn w h of
          (XS, YS) \<Rightarrow>
            bindE (maskfunc f XS YS) (\<lambda>mask.
            bindE (case colorfunc f of
                     ColTuple c \<Rightarrow> Inr (of_tuple c)
                   | ColFun g \<Rightarrow>
                       bindE (grid_select XS mask) (\<lambda>xs.
                       bindE (grid_select YS mask) (\<lambda>ys. g xs ys))) (\<lambda>v.
              nd_setmask (pixels img) mask v))))))"

definition call :: "image \<Rightarrow> drawable \<Rightarrow> bool \<Rightarrow> bool \<Rightarrow> error option \<times> image" where
  "call img f overwrite_domain use_host_domain =
     (case composite img f use_host_domain of
        Inl e \<Rightarrow> (Some e, img)
      | Inr px \<Rightarrow>
          (None,
           if overwrite_domain \<and> \<not> use_host_domain
           then \<lparr>pixels = px, domain = Some (domainfunc f)\<rparr>
           else \<lparr>pixels = px, domain = domain img\<rparr>))"


section \<open>The class LayeredImage\<close>

text \<open>
  A LayeredImage holds references to Image objects. The objects live in a store,
  a list addressed by position; creating an object appends it.
\<close>

type_synonym ref = nat

type_synonym heap = "image list"

record layered =
  layers :: "ref list"
  lwidth :: "int option"
  lheight :: "int option"

fun new_layers :: "heap \<Rightarrow> int option \<Rightarrow> int option \<Rightarrow> nat \<Rightarrow> error + heap \<times> ref list" where
  "new_layers hp w h 0 = Inr (hp, [])"
| "new_layers hp w h (Suc n) =
     bindE (Image_init w h None [0, 0, 0, 0] None) (\<lambda>img.
     bindE (new_layers (hp @ [img]) w h n) (\<lambda>(hp', rs). Inr (hp', length hp # rs)))"

text \<open>\<^verbatim>\<open>LayeredImage.__init__(width, height, num_layers, imgs)\<close>\<close>

definition LayeredImage_init ::
  "heap \<Rightarrow> int option \<Rightarrow> int option \<Rightarrow> int \<Rightarrow> ref list option \<Rightarrow> error + heap \<times> layered" where
  "LayeredImage_init hp w h num_layers imgs =
     (case imgs of
        Some rs \<Rightarrow>
          (case rs of
             [] \<Rightarrow> Inl IndexError
           | r # _ \<Rightarrow>
               bindE (width (hp ! r)) (\<lambda>wd.
               bindE (height (hp ! r)) (\<lambda>ht.
                 Inr (hp, \<lparr>layers = rs, lwidth = Some (int wd), lheight = Some (int ht)\<rparr>))))
      | None \<Rightarrow>
          bindE (new_layers hp w h (nat num_layers)) (\<lambda>(hp', rs).
            Inr (hp', \<lparr>layers = rs, lwidth = w, lheight = h\<rparr>)))"

definition nlayers :: "layered \<Rightarrow> nat" where
  "nlayers li = length (layers li)"

text \<open>
  \<^verbatim>\<open>LayeredImage.__getitem__\<close>: an integer key indexes the Python list (a negative
  key counts from the end), any other key gets the placeholder string.
\<close>

datatype key = KInt int | KOther

datatype lres = LRef ref | LStr string

definition li_getitem :: "layered \<Rightarrow> key \<Rightarrow> error + lres" where
  "li_getitem li k =
     (case k of
        KInt i \<Rightarrow>
          (let n = int (length (layers li))
           in if - n \<le> i \<and> i < n
              then Inr (LRef (layers li ! nat (if i < 0 then i + n else i)))
              else Inl IndexError)
      | KOther \<Rightarrow> Inr (LStr ''Other methods coming soon''))"


section \<open>Invariants and sample values\<close>

text \<open>
  What \<^verbatim>\<open>Image.__init__\<close> establishes: the pixel array has three axes, the last
  of length 4, and as many elements as its shape says.
\<close>

definition image_ok :: "image \<Rightarrow> bool" where
  "image_ok img =
     (length (shape (pixels img)) = 3 \<and> last (shape (pixels img)) = 4 \<and> nd_ok (pixels img))"

text \<open>Images used as concrete inputs below.\<close>

definition px1 :: image where
  "px1 = \<lparr>pixels = \<lparr>shape = [1, 1, 4], data = [0, 0, 0, 255]\<rparr>, domain = None\<rparr>"

definition img22 :: image where
  "img22 = \<lparr>pixels = \<lparr>shape = [2, 2, 4],
                        data = [0, 0, 0, 255, 0, 0, 0, 255, 0, 0, 0, 255, 0, 0, 0, 255]\<rparr>,
            domain = None\<rparr>"

definition white22 :: image where
  "white22 = \<lparr>pixels = \<lparr>shape = [2, 2, 4], data = replicate 16 255\<rparr>, domain = None\<rparr>"

text \<open>A domain that maps every pixel to 0, and drawables that use it.\<close>

definition flat_domain :: domfn where
  "flat_domain w h = (\<lparr>nrows = h, ncols = w, cells = replicate (h * w) 0\<rparr>,
                      \<lparr>nrows = h, ncols = w, cells = replicate (h * w) 0\<rparr>)"

definition fill_all :: drawable where
  "fill_all =
     \<lparr>domainfunc = flat_domain,
      maskfunc = (\<lambda>XS YS. Inr \<lparr>nrows = nrows XS, ncols = ncols XS,
                                 cells = map (\<lambda>x. True) (cells XS)\<rparr>),
      colorfunc = ColTuple [10, 20, 30, 255]\<rparr>"

definition broken_mask :: drawable where
  "broken_mask =
     \<lparr>domainfunc = flat_domain, maskfunc = (\<lambda>XS YS. Inl ValueError),
      colorfunc = ColTuple [10, 20, 30, 255]\<rparr>"

text \<open>An image of width 2 and height 1, and a 1-by-1 image with a domain.\<close>

definition wide21 :: image where
  "wide21 = \<lparr>pixels = \<lparr>shape = [1, 2, 4], data = [0, 0, 0, 255, 0, 0, 0, 255]\<rparr>,
             domain = None\<rparr>"

definition dom11 :: image where
  "dom11 = \<lparr>pixels = \<lparr>shape = [1, 1, 4], data = [0, 0, 0, 255]\<rparr>,
            domain = Some flat_domain\<rparr>"

section \<open>The nearest-pixel snap in the words of the specification\<close>

text \<open>
  \<open>nearest absdiff xs b i\<close>: \<open>i\<close> is a position of \<open>xs\<close> whose coordinate has
  the smallest computed absolute difference from the bound \<open>b\<close>, and the lowest
  such position. \<open>snapped absdiff xs b r\<close>: the bound \<open>r\<close> is the bound \<open>b\<close>
  snapped in that way, and \<^verbatim>\<open>None\<close> when \<open>b\<close> is \<^verbatim>\<open>None\<close>.
\<close>

definition nearest :: "(real \<Rightarrow> num \<Rightarrow> 'd::linorder) \<Rightarrow> real list \<Rightarrow> num \<Rightarrow> nat \<Rightarrow> bool" where
  "nearest absdiff xs b i =
     (i < length xs \<and>
      list_all (\<lambda>j. absdiff (xs ! i) b \<le> absdiff (xs ! j) b) [0..<length xs] \<and>
      list_all (\<lambda>j. absdiff (xs ! i) b < absdiff (xs ! j) b) [0..<i])"

fun snapped ::
  "(real \<Rightarrow> num \<Rightarrow> 'd::linorder) \<Rightarrow> real list \<Rightarrow> num option \<Rightarrow> num option \<Rightarrow> bool" where
  "snapped absdiff xs None r = (r = None)"
| "snapped absdiff xs (Some b) (Some (PyInt i)) = (0 \<le> i \<and> nearest absdiff xs b (nat i))"
| "snapped absdiff xs (Some b) r = False"

text \<open>
  Two instances of the arithmetic. \<open>exact_absdiff\<close> is the difference without
  rounding, which is what \<^verbatim>\<open>float64\<close> computes on the small dyadic values of the
  examples below. \<open>spaced_absdiff\<close> rounds the difference to a multiple of 16:
  between \<open>2 ^ 56\<close> and \<open>2 ^ 57\<close> the \<^verbatim>\<open>float64\<close> values are 16 apart.
\<close>

definition exact_absdiff :: "real \<Rightarrow> num \<Rightarrow> real" where
  "exact_absdiff x b = \<bar>x - num_val b\<bar>"

definition spaced_absdiff :: "real \<Rightarrow> num \<Rightarrow> real" where
  "spaced_absdiff x b = \<bar>16 * of_int (round ((x - num_val b) / 16))\<bar>"

text \<open>
  A domain whose coordinates are the pixel indices, a 2-by-2 image with that
  domain, and an image of width 0 with a domain.
\<close>

definition ramp_domain :: domfn where
  "ramp_domain w h =
     (\<lparr>nrows = h, ncols = w, cells = concat (replicate h (map real [0..<w]))\<rparr>,
      \<lparr>nrows = h, ncols = w, cells = concat (map (\<lambda>j. replicate w (real j)) [0..<h])\<rparr>)"

definition ramp22 :: image where
  "ramp22 = \<lparr>pixels = \<lparr>shape = [2, 2, 4],
                         data = [0, 0, 0, 255, 1, 1, 1, 255, 2, 2, 2, 255, 3, 3, 3, 255]\<rparr>,
             domain = Some ramp_domain\<rparr>"

definition zero_width :: image where
  "zero_width = \<lparr>pixels = \<lparr>shape = [1, 0, 4], data = []\<rparr>, domain = Some flat_domain\<rparr>"


section \<open>Properties\<close>

lemma bindE_Inl [simp]: "bindE (Inl e) f = Inl e"
  by (simp add: bindE_def)

lemma bindE_Inr [simp]: "bindE (Inr x) f = f x"
  by (simp add: bindE_def)

subsection \<open>Index-kind detection\<close>

lemma is_pixel_addr_list_all: "is_pixel_addr idx = list_all (\<lambda>c. \<not> float_bearing c) idx"
  by (induction idx rule: is_pixel_addr.induct) simp_all

text \<open>
  C2, as the code has it. The flipped index is a pixel address if and only if no
  component is a float and no slice component has a float start or stop; a
  component of any other kind (here \<^verbatim>\<open>Ellipsis\<close>) counts as a pixel-address
  component. \<^verbatim>\<open>__getitem__\<close> reads by pixels in the first case and by
  mathematical points in the second.
\<close>

theorem pixel_addr_iff_no_float:
  "(is_pixel_addr idx \<longleftrightarrow> (\<forall>c\<in>set idx. \<not> float_bearing c)) \<and>
   (flip_index index = Inr idx \<longrightarrow>
      getitem absdiff img index =
        (if \<forall>c\<in>set idx. \<not> float_bearing c then get_by_pixels img idx
         else get_by_points absdiff img idx))"
  by (simp add: is_pixel_addr_list_all list_all_iff getitem_def)

theorem pixel_addr_iff_no_float_witness:
  "\<not> is_pixel_addr [ISlice full_slice, IFloat (1 / 2)] \<and>
   getitem exact_absdiff px1 (Single (IFloat (1 / 2))) = Inl RuntimeError \<and>
   is_pixel_addr [IInt 0, IInt 0] \<and>
   getitem exact_absdiff px1 (Tuple [IInt 0, IInt 0]) = get_by_pixels px1 [IInt 0, IInt 0]"
  using pixel_addr_iff_no_float [of "[ISlice full_slice, IFloat (1 / 2)]" "Single (IFloat (1 / 2))"
          exact_absdiff px1]
        pixel_addr_iff_no_float [of "[IInt 0, IInt 0]" "Tuple [IInt 0, IInt 0]" exact_absdiff px1]
  by (simp add: get_by_points_def px1_def full_slice_def)

text \<open>
  C2 as the specification words it fails: the index \<^verbatim>\<open>(Ellipsis, 0)\<close> is a pixel
  address although \<^verbatim>\<open>Ellipsis\<close> is neither an integer nor a slice.
\<close>

theorem pixel_addr_not_only_int_or_slice:
  "is_pixel_addr [IEllipsis, IInt 0] \<and> \<not> list_all spec_pixel_component [IEllipsis, IInt 0]"
  by simp

subsection \<open>Binary AND\<close>

text \<open>
  C5. On an image that satisfies the constructor's invariant, \<^verbatim>\<open>__and__\<close> raises
  TypeError exactly when the right operand is not an Image, raises ValueError
  exactly when it is an Image whose pixel array has another shape, and otherwise
  returns a new Image on the elementwise sum of the two arrays. The function has
  no other result: the operands are only read.
\<close>

theorem and_op_results:
  assumes "image_ok img"
  shows "(and_op img other = Inl TypeError \<longleftrightarrow> other = ObjOther) \<and>
         (and_op img other = Inl ValueError \<longleftrightarrow>
            (\<exists>oth. other = ObjImage oth \<and> shape (pixels oth) \<noteq> shape (pixels img))) \<and>
         (\<forall>oth. other = ObjImage oth \<and> shape (pixels oth) = shape (pixels img) \<longrightarrow>
            and_op img other =
              Inr \<lparr>pixels = \<lparr>shape = shape (pixels img),
                               data = map (\<lambda>(x, y). x + y)
                                        (zip (data (pixels img)) (data (pixels oth)))\<rparr>,
                    domain = None\<rparr>)"
  using assms
  by (cases other) (auto simp: and_op_def Image_init_def nd_add_def image_ok_def)

theorem and_op_results_witness:
  "and_op img22 ObjOther = Inl TypeError \<and>
   and_op img22 (ObjImage px1) = Inl ValueError \<and>
   and_op img22 (ObjImage img22) =
     Inr \<lparr>pixels = \<lparr>shape = [2, 2, 4],
                      data = [0, 0, 0, 254, 0, 0, 0, 254, 0, 0, 0, 254, 0, 0, 0, 254]\<rparr>,
           domain = None\<rparr>"
proof -
  have ok: "image_ok img22"
    by (simp add: img22_def image_ok_def nd_ok_def)
  show ?thesis
    using and_op_results [OF ok, of ObjOther] and_op_results [OF ok, of "ObjImage px1"]
      and_op_results [OF ok, of "ObjImage img22"]
    by (simp add: img22_def px1_def)
qed

text \<open>
  C10. For two images of one shape the result of \<^verbatim>\<open>__and__\<close> holds, at every
  position, the sum of the two channel values modulo 256: 255 and 255 give 254.
\<close>

theorem and_op_wraps:
  assumes "image_ok a" "image_ok b" "shape (pixels b) = shape (pixels a)"
  shows "\<exists>c. and_op a (ObjImage b) = Inr c \<and> shape (pixels c) = shape (pixels a) \<and>
             length (data (pixels c)) = length (data (pixels a)) \<and>
             (\<forall>i < length (data (pixels a)).
                unat (data (pixels c) ! i) =
                  (unat (data (pixels a) ! i) + unat (data (pixels b) ! i)) mod 256)"
  using assms
  by (simp add: and_op_def Image_init_def nd_add_def image_ok_def nd_ok_def unat_word_ariths)

theorem and_op_wraps_witness:
  "and_op white22 (ObjImage white22) =
     Inr \<lparr>pixels = \<lparr>shape = [2, 2, 4], data = replicate 16 254\<rparr>, domain = None\<rparr>"
proof -
  have ok: "image_ok white22"
    by (simp add: white22_def image_ok_def nd_ok_def)
  show ?thesis
    using and_op_wraps [OF ok ok]
    by (simp add: and_op_def Image_init_def nd_add_def white22_def)
qed

subsection \<open>Drawable application\<close>

lemma upt_4: "[0..<4] = [0, 1, 2, 3]"
  by (simp add: upt_rec)

lemma composite_fill_all:
  "composite px1 fill_all False = Inr \<lparr>shape = [1, 1, 4], data = [10, 20, 30, 255]\<rparr>"
  apply (simp add: composite_def grid_source_def px1_def fill_all_def flat_domain_def
      width_def height_def shape_at_def)
  apply (simp add: nd_setmask_def of_tuple_def broadcast_def upt_4 Let_def)
  done

text \<open>
  C6. With \<^verbatim>\<open>use_host_domain\<close> and no domain attached, \<^verbatim>\<open>__call__\<close> raises
  RuntimeError and leaves the image as it was. Whenever the call raises, the image
  (pixels and domain) is the one before the call. When it returns, the pixels
  are those of the compositing step and the domain is the drawable's domain
  function if \<^verbatim>\<open>overwrite_domain\<close> holds and \<^verbatim>\<open>use_host_domain\<close> does not, and is
  unchanged otherwise.
\<close>

theorem call_domain_adoption:
  "(use_host_domain \<and> domain img = None \<longrightarrow>
      call img f overwrite_domain use_host_domain = (Some RuntimeError, img)) \<and>
   (\<forall>e img'. call img f overwrite_domain use_host_domain = (Some e, img') \<longrightarrow> img' = img) \<and>
   (\<forall>img'. call img f overwrite_domain use_host_domain = (None, img') \<longrightarrow>
      composite img f use_host_domain = Inr (pixels img') \<and>
      domain img' = (if overwrite_domain \<and> \<not> use_host_domain then Some (domainfunc f)
                     else domain img))"
  by (auto simp: call_def composite_def grid_source_def split: sum.splits)

theorem call_domain_adoption_witness:
  "call px1 fill_all True True = (Some RuntimeError, px1) \<and>
   call px1 broken_mask True False = (Some ValueError, px1) \<and>
   call px1 fill_all True False =
     (None, \<lparr>pixels = \<lparr>shape = [1, 1, 4], data = [10, 20, 30, 255]\<rparr>,
             domain = Some flat_domain\<rparr>) \<and>
   call px1 fill_all False False =
     (None, \<lparr>pixels = \<lparr>shape = [1, 1, 4], data = [10, 20, 30, 255]\<rparr>, domain = None\<rparr>)"
proof -
  have host: "domain px1 = None"
    by (simp add: px1_def)
  have broken: "composite px1 broken_mask False = Inl ValueError"
    by (simp add: composite_def grid_source_def px1_def broken_mask_def flat_domain_def
        width_def height_def shape_at_def)
  show ?thesis
    using call_domain_adoption [of True px1 fill_all True] host
      call_domain_adoption [of False px1 fill_all True]
    by (simp add: call_def composite_fill_all broken) (simp add: px1_def fill_all_def)
qed

subsection \<open>Unary negation\<close>

lemma slice_indices_full [simp]: "slice_indices full_slice d = Inr [0..<d]"
  by (simp add: slice_indices_def full_slice_def slice_range_def map_idI)

lemma slice_indices_color [simp]:
  "slice_indices (Slice (Some (PyInt 0)) (Some (PyInt 3)) None) 4 = Inr [0, 1, 2]"
  by (simp add: slice_indices_def slice_range_def clamp_bound_def upt_rec)

lemma select_alpha:
  "shape a = [h, w, 4] \<Longrightarrow>
   select a [ISlice full_slice, ISlice full_slice, IInt 3] =
     Inr [Many [0..<h], Many [0..<w], One 3]"
  by (simp add: select_def expand_index_def)

lemma select_color:
  "shape a = [h, w, 4] \<Longrightarrow>
   select a [ISlice full_slice, ISlice full_slice,
             ISlice (Slice (Some (PyInt 0)) (Some (PyInt 3)) None)] =
     Inr [Many [0..<h], Many [0..<w], Many [0, 1, 2]]"
  by (simp add: select_def expand_index_def)

text \<open>
  C3 fails on the code. \<^verbatim>\<open>__neg__\<close> reshapes the alpha channel to
  \<^verbatim>\<open>(width, height, 1)\<close> and appends it to colours of shape
  \<^verbatim>\<open>(height, width, 3)\<close>: on every image whose width and height differ the
  append raises ValueError, so negation returns no image at all.
\<close>

theorem neg_fails_unless_square:
  assumes "shape (pixels img) = [h, w, 4]" "h \<noteq> w"
  shows "neg img = Inl ValueError"
  using assms
  by (simp add: neg_def alpha_def color_def nd_getitem_def select_alpha select_color width_def
      height_def shape_at_def set_shape_def append_axis2_def nd_map_def mult.commute)

theorem neg_fails_unless_square_witness: "neg wide21 = Inl ValueError"
proof -
  have "shape (pixels wide21) = [1, 2, 4]" "(1::nat) \<noteq> 2"
    by (simp_all add: wide21_def)
  then show ?thesis
    by (rule neg_fails_unless_square)
qed

subsection \<open>Reads by mathematical points\<close>

text \<open>
  C7 fails on the code. With a domain attached, a mathematical index whose first
  two components are slices is read by those two slices whatever follows them:
  further components raise no ValueError and are ignored.
\<close>

theorem extra_components_ignored:
  assumes "domain img = Some dmn" "float_bearing (ISlice xs) \<or> float_bearing (ISlice ys)"
  shows "getitem absdiff img (Tuple (ISlice xs # ISlice ys # rest)) = get_by_slices absdiff img dmn ys xs \<and>
         getitem absdiff img (Tuple (ISlice xs # ISlice ys # rest)) =
           getitem absdiff img (Tuple [ISlice xs, ISlice ys])"
proof -
  have "getitem absdiff img (Tuple (ISlice xs # ISlice ys # r)) = get_by_slices absdiff img dmn ys xs" for r
    using assms by (cases r) (auto simp: getitem_def get_by_points_def)
  then show ?thesis by simp
qed

theorem extra_components_ignored_witness:
  "getitem exact_absdiff dom11
     (Tuple [ISlice (Slice (Some (PyFloat (1 / 2))) None None), ISlice full_slice, IInt 0]) =
   Inr (RImage px1)"
proof -
  have d: "domain dom11 = Some flat_domain"
    by (simp add: dom11_def)
  have f: "float_bearing (ISlice (Slice (Some (PyFloat (1 / 2))) None None)) \<or>
           float_bearing (ISlice full_slice)"
    by simp
  have "get_by_slices exact_absdiff dom11 flat_domain full_slice (Slice (Some (PyFloat (1 / 2))) None None) =
        Inr (RImage px1)"
    apply (simp add: get_by_slices_def dom11_def flat_domain_def width_def height_def shape_at_def
        first_row_def first_column_def snap_def distances_def full_slice_def)
    apply (simp add: get_by_pixels_def nd_getitem_def select_def expand_index_def
        slice_indices_def slice_range_def clamp_bound_def fromarray_def Image_init_def px1_def
        full_slice_def upt_4)
    done
  with extra_components_ignored [OF d f, of exact_absdiff "[IInt 0]"] show ?thesis
    by simp
qed

subsection \<open>Construction and pixel reads\<close>

lemma length4E: "length v = 4 \<Longrightarrow> \<exists>a b c d. v = [a, b, c, d]"
  by (auto simp: numeral_eq_Suc length_Suc_conv)

lemma bcast_tuple_row: "length v = 4 \<Longrightarrow> bcast [4] [4] v = v"
  by (auto dest!: length4E simp: upt_4)

lemma broadcast_tuple_row: "length v = 4 \<Longrightarrow> broadcast (of_tuple v) [4] = Inr v"
  by (simp add: broadcast_def of_tuple_def bcast_tuple_row del: bcast.simps)

lemma broadcast_tuple_image:
  "length v = 4 \<Longrightarrow>
   broadcast (of_tuple v) [h, w, 4] = Inr (concat (replicate h (concat (replicate w v))))"
  using bcast_tuple_row [of v]
  by (simp add: broadcast_def of_tuple_def)

lemma nth_concat_replicate:
  "i < n \<Longrightarrow> k < length v \<Longrightarrow> concat (replicate n v) ! (i * length v + k) = v ! k"
proof (induction n arbitrary: i)
  case 0
  then show ?case by simp
next
  case (Suc n)
  show ?case
  proof (cases i)
    case 0
    with Suc.prems show ?thesis by (simp add: nth_append)
  next
    case (Suc j)
    with Suc.prems Suc.IH [of j] show ?thesis by (simp add: nth_append)
  qed
qed

lemma length_concat_replicate: "length (concat (replicate n v)) = n * length v"
  by (induction n) simp_all

lemma nth_filled:
  assumes "length v = 4" "x < w" "y < h" "k < 4"
  shows "concat (replicate h (concat (replicate w v))) ! (y * (w * 4) + x * 4 + k) = v ! k"
proof -
  let ?row = "concat (replicate w v)"
  have len: "length ?row = w * 4"
    using assms(1) by (simp add: length_concat_replicate)
  have "x * 4 + k < w * 4"
    using assms(2,4) by (simp add: mult_le_mono1 Suc_le_eq [symmetric]) 
  then have "concat (replicate h ?row) ! (y * length ?row + (x * 4 + k)) = ?row ! (x * 4 + k)"
    using assms(3) len by (intro nth_concat_replicate) simp_all
  also have "?row ! (x * 4 + k) = v ! k"
    using nth_concat_replicate [of x w k v] assms by simp
  finally show ?thesis
    by (simp add: len add.assoc)
qed

lemma select_pixel:
  assumes "shape a = [h, w, 4]" "x < w" "y < h"
  shows "select a [IInt (int y), IInt (int x)] = Inr [One y, One x, Many [0..<4]]"
  using assms by (simp add: select_def expand_index_def)

lemma offsets_pixel:
  "offsets [h, w, 4] [One y, One x, Many [0..<4]] 0 = map (\<lambda>k. y * (w * 4) + x * 4 + k) [0..<4]"
  by (simp add: upt_4)

lemma getitem_pixel:
  assumes "shape (pixels img) = [h, w, 4]" "x < w" "y < h"
  shows "getitem absdiff img (Tuple [IInt (int x), IInt (int y)]) =
         Inr (RArray \<lparr>shape = [4],
                      data = map (\<lambda>k. data (pixels img) ! (y * (w * 4) + x * 4 + k)) [0..<4]\<rparr>)"
  using assms
  by (simp add: getitem_def get_by_pixels_def nd_getitem_def select_pixel offsets_pixel
      del: offsets.simps)

lemma np_full_image:
  assumes "0 \<le> w" "0 \<le> h" "length v = 4"
  shows "np_full [h, w, 4] v =
         Inr \<lparr>shape = [nat h, nat w, 4],
              data = concat (replicate (nat h) (concat (replicate (nat w) v)))\<rparr>"
  using assms by (simp add: np_full_def broadcast_tuple_image)

lemma Image_init_fill:
  assumes "0 \<le> w" "0 \<le> h" "length bg = 3 \<or> length bg = 4"
  shows "Image_init (Some w) (Some h) d bg None =
         Inr \<lparr>pixels = \<lparr>shape = [nat h, nat w, 4],
                          data = concat (replicate (nat h) (concat (replicate (nat w)
                                   (if length bg = 3 then bg @ [255] else bg))))\<rparr>,
               domain = d\<rparr>"
  using assms by (auto simp: Image_init_def np_full_image)

text \<open>
  C8. For a width and a height that are not negative and a background of three
  or four channels, \<^verbatim>\<open>Image(width, height, domain, background)\<close> returns an
  image of that width and height whose every pixel reads as the background,
  widened by 255 when it has three channels. Without a pixel array a missing
  width or height raises ValueError; a pixel array is taken as it is when it has
  three axes and a last axis of length 4, whatever the other arguments, and raises
  ValueError otherwise.
\<close>

theorem Image_init_results:
  "(0 \<le> w \<and> 0 \<le> h \<and> (length bg = 3 \<or> length bg = 4) \<longrightarrow>
      (\<exists>img. Image_init (Some w) (Some h) d bg None = Inr img \<and>
         width img = Inr (nat w) \<and> height img = Inr (nat h) \<and> domain img = d \<and> image_ok img \<and>
         (\<forall>x y. x < nat w \<and> y < nat h \<longrightarrow>
            getitem absdiff img (Tuple [IInt (int x), IInt (int y)]) =
              Inr (RArray \<lparr>shape = [4], data = (if length bg = 3 then bg @ [255] else bg)\<rparr>)))) \<and>
   (w' = None \<or> h' = None \<longrightarrow> Image_init w' h' d bg None = Inl ValueError) \<and>
   Image_init w' h' d bg (Some p) =
     (if length (shape p) = 3 \<and> last (shape p) = 4 then Inr \<lparr>pixels = p, domain = d\<rparr>
      else Inl ValueError)"
proof (intro conjI impI)
  assume a: "0 \<le> w \<and> 0 \<le> h \<and> (length bg = 3 \<or> length bg = 4)"
  define v where "v = (if length bg = 3 then bg @ [255] else bg)"
  have lv: "length v = 4"
    using a by (auto simp: v_def)
  define img where "img = \<lparr>pixels = \<lparr>shape = [nat h, nat w, 4],
      data = concat (replicate (nat h) (concat (replicate (nat w) v)))\<rparr>, domain = d\<rparr>"
  have init: "Image_init (Some w) (Some h) d bg None = Inr img"
    using a Image_init_fill [of w h bg d] by (simp add: img_def v_def)
  have shp: "shape (pixels img) = [nat h, nat w, 4]"
    by (simp add: img_def)
  have ok: "image_ok img"
    using lv by (simp add: image_ok_def nd_ok_def img_def length_concat_replicate)
  have rd: "getitem absdiff img (Tuple [IInt (int x), IInt (int y)]) = Inr (RArray \<lparr>shape = [4], data = v\<rparr>)"
    if "x < nat w" "y < nat h" for x y
  proof -
    have "map (\<lambda>k. data (pixels img) ! (y * (nat w * 4) + x * 4 + k)) [0..<4] = map (\<lambda>k. v ! k) [0..<4]"
      using that lv by (intro map_cong refl) (simp add: img_def nth_filled)
    also have "\<dots> = v"
      using lv map_nth [of v] by simp
    finally show ?thesis
      using getitem_pixel [OF shp that] by simp
  qed
  show "\<exists>img. Image_init (Some w) (Some h) d bg None = Inr img \<and>
         width img = Inr (nat w) \<and> height img = Inr (nat h) \<and> domain img = d \<and> image_ok img \<and>
         (\<forall>x y. x < nat w \<and> y < nat h \<longrightarrow>
            getitem absdiff img (Tuple [IInt (int x), IInt (int y)]) =
              Inr (RArray \<lparr>shape = [4], data = (if length bg = 3 then bg @ [255] else bg)\<rparr>))"
    using init ok rd
    by (intro exI [of _ img]) (simp add: width_def height_def shape_at_def img_def v_def)
next
  assume "w' = None \<or> h' = None"
  then show "Image_init w' h' d bg None = Inl ValueError"
    by (auto simp: Image_init_def split: option.splits)
next
  show "Image_init w' h' d bg (Some p) =
     (if length (shape p) = 3 \<and> last (shape p) = 4 then Inr \<lparr>pixels = p, domain = d\<rparr>
      else Inl ValueError)"
    by (simp add: Image_init_def)
qed

theorem Image_init_results_witness:
  "Image_init (Some 2) (Some 1) None [0, 0, 0] None = Inr wide21 \<and>
   getitem exact_absdiff wide21 (Tuple [IInt 1, IInt 0]) = Inr (RArray \<lparr>shape = [4], data = [0, 0, 0, 255]\<rparr>) \<and>
   Image_init None (Some 1) None [0, 0, 0] None = Inl ValueError \<and>
   Image_init None (Some 1) None [0, 0, 0] (Some \<lparr>shape = [2, 4], data = replicate 8 0\<rparr>) =
     Inl ValueError"
proof -
  have init: "Image_init (Some 2) (Some 1) None [0, 0, 0] None = Inr wide21"
    by (simp add: Image_init_fill wide21_def numeral_2_eq_2)
  have a: "(0::int) \<le> 2 \<and> (0::int) \<le> 1 \<and> (length [0, 0, 0 :: u8] = 3 \<or> length [0, 0, 0 :: u8] = 4)"
    by simp
  from Image_init_results [where w = 2 and h = 1 and bg = "[0, 0, 0]" and d = None and w' = None
      and absdiff = exact_absdiff
      and h' = "Some 1" and p = "\<lparr>shape = [2, 4], data = replicate 8 0\<rparr>"] a
  show ?thesis
    apply (simp add: init)
    apply (elim conjE)
    apply (drule spec [of _ 1])
    apply simp
    done
qed

subsection \<open>Writing a pixel and reading it back\<close>

lemma length_scatter [simp]: "length (scatter xs ps vs) = length xs"
  by (induction xs ps vs rule: scatter.induct) simp_all

lemma scatter_nth_other: "p \<notin> set ps \<Longrightarrow> scatter xs ps vs ! p = xs ! p"
  by (induction xs ps vs rule: scatter.induct) auto

lemma scatter_read:
  "distinct ps \<Longrightarrow> length vs = length ps \<Longrightarrow> \<forall>p\<in>set ps. p < length xs \<Longrightarrow>
   map (\<lambda>p. scatter xs ps vs ! p) ps = vs"
proof (induction xs ps vs rule: scatter.induct)
  case (1 xs p ps v vs)
  have "scatter (xs[p := v]) ps vs ! p = v"
    using "1.prems" by (simp add: scatter_nth_other)
  moreover have "map (\<lambda>q. scatter (xs[p := v]) ps vs ! q) ps = vs"
    using "1.prems" by (intro "1.IH") simp_all
  ultimately show ?case by simp
qed simp_all

lemma pixel_offset_bound:
  fixes x y w h k :: nat
  assumes "x < w" "y < h" "k < 4"
  shows "y * (w * 4) + x * 4 + k < h * (w * 4)"
proof -
  have "x * 4 + k < w * 4"
    using assms(1,3) by simp
  moreover have "Suc y * (w * 4) \<le> h * (w * 4)"
    using assms(2) by (intro mult_le_mono1) simp
  ultimately show ?thesis by simp
qed

lemma setitem_pixel:
  assumes "shape (pixels img) = [h, w, 4]" "x < w" "y < h" "length v = 4"
  shows "nd_setitem (pixels img) [IInt (int y), IInt (int x)] v =
         Inr ((pixels img)\<lparr>data := scatter (data (pixels img))
                (map (\<lambda>k. y * (w * 4) + x * 4 + k) [0..<4]) v\<rparr>)"
  using assms
  by (simp add: nd_setitem_def select_pixel offsets_pixel broadcast_tuple_row
      del: offsets.simps)

text \<open>
  C4. On an image of height \<open>h\<close> and width \<open>w\<close>, for a pixel address \<open>(x, y)\<close>
  with \<open>x < w\<close> and \<open>y < h\<close> and a colour of three or four channels,
  \<^verbatim>\<open>img[x, y] = c\<close> succeeds and \<^verbatim>\<open>img[x, y]\<close> then returns the colour, widened
  by 255 when it has three channels. The write is the numpy assignment at
  \<^verbatim>\<open>[y, x]\<close> and the read is \<^verbatim>\<open>_get_by_pixels\<close> at \<^verbatim>\<open>[y, x]\<close>: both swap the
  two components. Shape and domain are unchanged.
\<close>

theorem write_then_read:
  assumes "shape (pixels img) = [h, w, 4]" "nd_ok (pixels img)" "x < w" "y < h"
    "length c = 3 \<or> length c = 4"
  shows "\<exists>img'. setitem img (Tuple [IInt (int x), IInt (int y)]) c = Inr img' \<and>
           getitem absdiff img' (Tuple [IInt (int x), IInt (int y)]) =
             Inr (RArray \<lparr>shape = [4], data = (if length c = 3 then c @ [255] else c)\<rparr>) \<and>
           setitem img (Tuple [IInt (int x), IInt (int y)]) c =
             bindE (nd_setitem (pixels img) [IInt (int y), IInt (int x)]
                      (if length c = 3 then c @ [255] else c))
                   (\<lambda>p. Inr (img\<lparr>pixels := p\<rparr>)) \<and>
           getitem absdiff img' (Tuple [IInt (int x), IInt (int y)]) =
             get_by_pixels img' [IInt (int y), IInt (int x)] \<and>
           shape (pixels img') = [h, w, 4] \<and> domain img' = domain img"
proof -
  define v where "v = (if length c = 3 then c @ [255] else c)"
  define ps where "ps = map (\<lambda>k. y * (w * 4) + x * 4 + k) [0..<4]"
  define img' where "img' = img\<lparr>pixels := (pixels img)\<lparr>data := scatter (data (pixels img)) ps v\<rparr>\<rparr>"
  have lv: "length v = 4"
    using assms(5) by (auto simp: v_def)
  have set: "setitem img (Tuple [IInt (int x), IInt (int y)]) c = Inr img'"
    using setitem_pixel [OF assms(1,3,4) lv]
    by (simp add: setitem_def img'_def ps_def v_def Let_def)
  have shp: "shape (pixels img') = [h, w, 4]"
    using assms(1) by (simp add: img'_def)
  have len: "length (data (pixels img)) = h * (w * 4)"
    using assms(1,2) by (simp add: nd_ok_def)
  have "distinct ps"
    by (simp add: ps_def distinct_map inj_on_def)
  moreover have "length v = length ps"
    using lv by (simp add: ps_def)
  moreover have "\<forall>p\<in>set ps. p < length (data (pixels img))"
  proof
    fix p
    assume "p \<in> set ps"
    then obtain i where i: "i < length ps" "ps ! i = p"
      by (auto simp: in_set_conv_nth)
    then have "i < 4" "p = y * (w * 4) + x * 4 + i"
      by (simp_all add: ps_def)
    then show "p < length (data (pixels img))"
      using assms(3,4) by (simp add: len pixel_offset_bound)
  qed
  ultimately have "map (\<lambda>p. scatter (data (pixels img)) ps v ! p) ps = v"
    by (rule scatter_read)
  then have "map (\<lambda>k. data (pixels img') ! (y * (w * 4) + x * 4 + k)) [0..<4] = v"
    by (simp add: img'_def ps_def comp_def)
  then have get: "getitem absdiff img' (Tuple [IInt (int x), IInt (int y)]) =
      Inr (RArray \<lparr>shape = [4], data = v\<rparr>)"
    using getitem_pixel [OF shp assms(3,4)] by simp
  have flip: "getitem absdiff img' (Tuple [IInt (int x), IInt (int y)]) =
      get_by_pixels img' [IInt (int y), IInt (int x)]"
    by (simp add: getitem_def)
  have raw: "setitem img (Tuple [IInt (int x), IInt (int y)]) c =
      bindE (nd_setitem (pixels img) [IInt (int y), IInt (int x)] v) (\<lambda>p. Inr (img\<lparr>pixels := p\<rparr>))"
    by (simp add: setitem_def v_def Let_def)
  show ?thesis
    using set get flip raw shp
    by (intro exI [of _ img']) (simp add: v_def img'_def)
qed

theorem write_then_read_witness:
  "setitem img22 (Tuple [IInt 1, IInt 0]) [10, 20, 30] =
     Inr \<lparr>pixels = \<lparr>shape = [2, 2, 4],
                      data = [0, 0, 0, 255, 10, 20, 30, 255, 0, 0, 0, 255, 0, 0, 0, 255]\<rparr>,
           domain = None\<rparr> \<and>
   getitem exact_absdiff \<lparr>pixels = \<lparr>shape = [2, 2, 4],
                      data = [0, 0, 0, 255, 10, 20, 30, 255, 0, 0, 0, 255, 0, 0, 0, 255]\<rparr>,
            domain = None\<rparr> (Tuple [IInt 1, IInt 0]) =
     Inr (RArray \<lparr>shape = [4], data = [10, 20, 30, 255]\<rparr>)"
proof -
  have s: "shape (pixels img22) = [2, 2, 4]" and ok: "nd_ok (pixels img22)"
    by (simp_all add: img22_def nd_ok_def)
  have c: "length [10, 20, 30 :: u8] = 3 \<or> length [10, 20, 30 :: u8] = 4"
    by simp
  have b: "(1::nat) < 2" "(0::nat) < 2"
    by simp_all
  have w: "setitem img22 (Tuple [IInt 1, IInt 0]) [10, 20, 30] =
     Inr \<lparr>pixels = \<lparr>shape = [2, 2, 4],
                      data = [0, 0, 0, 255, 10, 20, 30, 255, 0, 0, 0, 255, 0, 0, 0, 255]\<rparr>,
           domain = None\<rparr>"
    using setitem_pixel [of img22 2 2 1 0 "[10, 20, 30, 255]"]
    by (simp add: setitem_def img22_def upt_4)
  from write_then_read [OF s ok b c, of exact_absdiff] show ?thesis
    by (auto simp: w)
qed

subsection \<open>Layered images\<close>

lemma concat_replicate_replicate: "concat (replicate n (replicate m x)) = replicate (n * m) x"
  by (induction n) (simp_all add: replicate_add)

lemma Image_init_blank:
  assumes "0 \<le> w" "0 \<le> h"
  shows "Image_init (Some w) (Some h) None [0, 0, 0, 0] None =
         Inr \<lparr>pixels = \<lparr>shape = [nat h, nat w, 4], data = replicate (nat h * (nat w * 4)) 0\<rparr>,
               domain = None\<rparr>"
proof -
  have "[0, 0, 0, 0 :: u8] = replicate 4 0"
    by (simp add: numeral_eq_Suc)
  then show ?thesis
    using assms Image_init_fill [of w h "[0, 0, 0, 0]" None]
    by (simp add: concat_replicate_replicate)
qed

lemma new_layers_fresh:
  assumes "Image_init w h None [0, 0, 0, 0] None = Inr blank"
  shows "new_layers hp w h n = Inr (hp @ replicate n blank, [length hp..<length hp + n])"
proof (induction n arbitrary: hp)
  case 0
  show ?case by simp
next
  case (Suc n)
  show ?case
    using assms Suc [of "hp @ [blank]"]
    by (simp add: replicate_app_Cons_same upt_conv_Cons)
qed

text \<open>
  C9. For a width, a height and a layer count that are not negative,
  \<^verbatim>\<open>LayeredImage(width, height, num_layers)\<close> creates that many new Image objects,
  leaves the objects already in the store as they were, and reports the width
  and height it was given. Every layer is an image of that height and width
  whose channels are all 0. Indexing by \<open>i\<close> returns the reference held at
  position \<open>i\<close> of the layer list: \<^verbatim>\<open>__getitem__\<close> creates no object, and the
  references are pairwise distinct.
\<close>

theorem layered_init:
  assumes "0 \<le> w" "0 \<le> h" "0 \<le> n"
  shows "\<exists>hp' li. LayeredImage_init hp (Some w) (Some h) n None = Inr (hp', li) \<and>
           nlayers li = nat n \<and> lwidth li = Some w \<and> lheight li = Some h \<and>
           take (length hp) hp' = hp \<and> distinct (layers li) \<and>
           (\<forall>i < nat n.
              li_getitem li (KInt (int i)) = Inr (LRef (layers li ! i)) \<and>
              length hp \<le> layers li ! i \<and> layers li ! i < length hp' \<and>
              hp' ! (layers li ! i) =
                \<lparr>pixels = \<lparr>shape = [nat h, nat w, 4],
                                data = replicate (nat h * (nat w * 4)) 0\<rparr>,
                  domain = None\<rparr> \<and>
              width (hp' ! (layers li ! i)) = Inr (nat w) \<and>
              height (hp' ! (layers li ! i)) = Inr (nat h))"
proof -
  define blank where "blank = \<lparr>pixels = \<lparr>shape = [nat h, nat w, 4],
      data = replicate (nat h * (nat w * 4)) (0 :: u8)\<rparr>, domain = (None :: domfn option)\<rparr>"
  define hp' where "hp' = hp @ replicate (nat n) blank"
  define li where "li = \<lparr>layers = [length hp..<length hp + nat n], lwidth = Some w, lheight = Some h\<rparr>"
  have init: "LayeredImage_init hp (Some w) (Some h) n None = Inr (hp', li)"
    using new_layers_fresh [OF Image_init_blank [OF assms(1,2)], of hp "nat n"]
    by (simp add: LayeredImage_init_def hp'_def li_def blank_def)
  have each: "li_getitem li (KInt (int i)) = Inr (LRef (layers li ! i)) \<and>
      length hp \<le> layers li ! i \<and> layers li ! i < length hp' \<and>
      hp' ! (layers li ! i) = blank \<and>
      width (hp' ! (layers li ! i)) = Inr (nat w) \<and>
      height (hp' ! (layers li ! i)) = Inr (nat h)" if "i < nat n" for i
    using that
    by (simp add: li_getitem_def li_def hp'_def nth_append blank_def width_def height_def
        shape_at_def)
  show ?thesis
    using init each
    by (intro exI [of _ hp'] exI [of _ li]) (simp add: nlayers_def li_def hp'_def blank_def)
qed

theorem layered_init_witness:
  "LayeredImage_init [px1] (Some 1) (Some 1) 2 None =
     Inr ([px1, \<lparr>pixels = \<lparr>shape = [1, 1, 4], data = [0, 0, 0, 0]\<rparr>, domain = None\<rparr>,
           \<lparr>pixels = \<lparr>shape = [1, 1, 4], data = [0, 0, 0, 0]\<rparr>, domain = None\<rparr>],
          \<lparr>layers = [1, 2], lwidth = Some 1, lheight = Some 1\<rparr>) \<and>
   li_getitem \<lparr>layers = [1, 2], lwidth = Some 1, lheight = Some 1\<rparr> (KInt 1) = Inr (LRef 2)"
proof -
  have a: "(0::int) \<le> 1" "(0::int) \<le> 1" "(0::int) \<le> 2"
    by simp_all
  have i: "LayeredImage_init [px1] (Some 1) (Some 1) 2 None =
     Inr ([px1, \<lparr>pixels = \<lparr>shape = [1, 1, 4], data = [0, 0, 0, 0]\<rparr>, domain = None\<rparr>,
           \<lparr>pixels = \<lparr>shape = [1, 1, 4], data = [0, 0, 0, 0]\<rparr>, domain = None\<rparr>],
          \<lparr>layers = [1, 2], lwidth = Some 1, lheight = Some 1\<rparr>)"
    using new_layers_fresh [OF Image_init_blank [of 1 1], of "[px1]" 2]
    by (simp add: LayeredImage_init_def numeral_eq_Suc)
  from layered_init [OF a, of "[px1]"] show ?thesis
    by (simp add: i li_getitem_def)
qed

subsection \<open>The nearest-pixel snap\<close>

lemma set_distance_pairs:
  "set (map (\<lambda>(i, x). (absdiff x b, i)) (enumerate 0 xs)) =
   {(absdiff (xs ! j) b, j) | j. j < length xs}"
  by (force simp: in_set_enumerate_eq image_iff)

lemma first_index_distances:
  assumes "xs \<noteq> []"
  shows "\<exists>i. first_index (distances absdiff xs b) = Inr (Some (PyInt (int i))) \<and>
             nearest absdiff xs b i"
proof -
  let ?ps = "map (\<lambda>(i, x). (absdiff x b, i)) (enumerate 0 xs)"
  have "length (sort ?ps) = length xs"
    by simp
  then have "sort ?ps \<noteq> []"
    using assms by (metis length_0_conv)
  then obtain d i rest where s: "sort ?ps = (d, i) # rest"
    by (cases "sort ?ps") auto
  have S_eq: "set (sort ?ps) = {(absdiff (xs ! j) b, j) | j. j < length xs}"
    using set_distance_pairs [of absdiff b xs] by simp
  have "(d, i) \<in> set (sort ?ps)"
    by (simp add: s)
  then have "(d, i) \<in> {(absdiff (xs ! j) b, j) | j. j < length xs}"
    unfolding S_eq .
  then have i: "i < length xs" and d: "d = absdiff (xs ! i) b"
    by auto
  have "sorted (sort ?ps)"
    by simp
  then have all: "\<forall>q\<in>set (sort ?ps). (d, i) \<le> q"
    unfolding s by auto
  have least: "(d, i) \<le> (absdiff (xs ! j) b, j)" if "j < length xs" for j
  proof -
    from that have "(absdiff (xs ! j) b, j) \<in> set (sort ?ps)"
      unfolding S_eq by blast
    with all show ?thesis
      by blast
  qed
  have le: "absdiff (xs ! i) b \<le> absdiff (xs ! j) b" if "j < length xs" for j
    using least [OF that] d by (auto simp: less_eq_prod_def)
  have lt: "absdiff (xs ! i) b < absdiff (xs ! j) b" if "j < i" for j
    using least [of j] that i d by (auto simp: less_eq_prod_def)
  have "nearest absdiff xs b i"
    using i le lt by (simp add: nearest_def list_all_iff)
  then show ?thesis
    by (auto simp: distances_def s)
qed

lemma snap_snapped:
  assumes "b \<noteq> None \<Longrightarrow> xs \<noteq> []"
  shows "\<exists>r. snap absdiff xs b = Inr r \<and> snapped absdiff xs b r \<and> \<not> is_float r"
proof (cases b)
  case None
  then show ?thesis by (simp add: snap_def)
next
  case (Some v)
  with assms first_index_distances [of xs absdiff v] show ?thesis
    by (auto simp: snap_def)
qed

text \<open>
  C1, as the code has it. Let the image have a domain whose X grid has a first
  row \<open>xs\<close> and whose Y grid has a first column \<open>ys\<close>, and let the index be two
  slices of which one bears a float, such that an axis with a bound has at least
  one coordinate. Then each bound is snapped (\<open>snapped\<close>): a bound that is not
  \<^verbatim>\<open>None\<close> becomes the lowest pixel index among those whose computed absolute
  difference \<open>absdiff x b\<close> from the bound is smallest, whatever the arithmetic
  \<open>absdiff\<close> is. The read equals \<^verbatim>\<open>_get_by_pixels\<close> with the row slice
  (snapped y-stop, snapped y-start) and the column slice (snapped x-start,
  snapped x-stop), which is also what \<^verbatim>\<open>__getitem__\<close> returns for those two pixel
  slices.
\<close>

theorem math_read_snaps:
  assumes "domain img = Some dmn" "width img = Inr w" "height img = Inr h"
    and "dmn w h = (XS, YS)" "first_row XS = Inr xs" "first_column YS = Inr ys"
    and "start xsl \<noteq> None \<or> stop xsl \<noteq> None \<Longrightarrow> xs \<noteq> []"
    and "start ysl \<noteq> None \<or> stop ysl \<noteq> None \<Longrightarrow> ys \<noteq> []"
    and "float_bearing (ISlice xsl) \<or> float_bearing (ISlice ysl)"
  shows "\<exists>x0 x1 y0 y1.
           snapped absdiff xs (start xsl) x0 \<and> snapped absdiff xs (stop xsl) x1 \<and>
           snapped absdiff ys (start ysl) y0 \<and> snapped absdiff ys (stop ysl) y1 \<and>
           getitem absdiff img (Tuple [ISlice xsl, ISlice ysl]) =
             get_by_pixels img [ISlice (Slice y1 y0 None), ISlice (Slice x0 x1 None)] \<and>
           getitem absdiff img (Tuple [ISlice xsl, ISlice ysl]) =
             getitem absdiff img (Tuple [ISlice (Slice x0 x1 None), ISlice (Slice y1 y0 None)])"
proof -
  obtain x0 where x0: "snap absdiff xs (start xsl) = Inr x0" "snapped absdiff xs (start xsl) x0" "\<not> is_float x0"
    using snap_snapped [of "start xsl" xs absdiff] assms(7) by blast
  obtain x1 where x1: "snap absdiff xs (stop xsl) = Inr x1" "snapped absdiff xs (stop xsl) x1" "\<not> is_float x1"
    using snap_snapped [of "stop xsl" xs absdiff] assms(7) by blast
  obtain y0 where y0: "snap absdiff ys (start ysl) = Inr y0" "snapped absdiff ys (start ysl) y0" "\<not> is_float y0"
    using snap_snapped [of "start ysl" ys absdiff] assms(8) by blast
  obtain y1 where y1: "snap absdiff ys (stop ysl) = Inr y1" "snapped absdiff ys (stop ysl) y1" "\<not> is_float y1"
    using snap_snapped [of "stop ysl" ys absdiff] assms(8) by blast
  have "getitem absdiff img (Tuple [ISlice xsl, ISlice ysl]) = get_by_slices absdiff img dmn ysl xsl"
    using assms(1,9) by (auto simp: getitem_def get_by_points_def)
  also have "\<dots> = get_by_pixels img [ISlice (Slice y1 y0 None), ISlice (Slice x0 x1 None)]"
    using assms(2-6) x0(1) x1(1) y0(1) y1(1) by (simp add: get_by_slices_def)
  finally have rd: "getitem absdiff img (Tuple [ISlice xsl, ISlice ysl]) =
      get_by_pixels img [ISlice (Slice y1 y0 None), ISlice (Slice x0 x1 None)]" .
  have px: "getitem absdiff img (Tuple [ISlice (Slice x0 x1 None), ISlice (Slice y1 y0 None)]) =
      get_by_pixels img [ISlice (Slice y1 y0 None), ISlice (Slice x0 x1 None)]"
    using x0(3) x1(3) y0(3) y1(3) by (simp add: getitem_def)
  show ?thesis
    using x0(2) x1(2) y0(2) y1(2) rd px by (intro exI [of _ x0] exI [of _ x1] exI [of _ y0] exI [of _ y1]) simp
qed

lemma upt_2: "[0..<2] = [0, 1]"
  by (simp add: upt_rec)

lemma ramp_domain_22:
  "ramp_domain 2 2 = (\<lparr>nrows = 2, ncols = 2, cells = [0, 1, 0, 1]\<rparr>,
                      \<lparr>nrows = 2, ncols = 2, cells = [0, 0, 1, 1]\<rparr>)"
  by (simp add: ramp_domain_def upt_2 numeral_2_eq_2)

lemma ramp_rows:
  "first_row \<lparr>nrows = 2, ncols = 2, cells = [0, 1, 0, 1 :: real]\<rparr> = Inr [0, 1]"
  "first_column \<lparr>nrows = 2, ncols = 2, cells = [0, 0, 1, 1 :: real]\<rparr> = Inr [0, 1]"
  by (simp_all add: first_row_def first_column_def upt_2)

lemma ramp_snaps:
  "snap exact_absdiff [0, 1] (Some (PyFloat (1 / 2))) = Inr (Some (PyInt 0))"
  "snap exact_absdiff [0, 1] (Some (PyFloat (3 / 4))) = Inr (Some (PyInt 1))"
  "snap exact_absdiff [0, 1] None = Inr None"
  by (simp_all add: snap_def distances_def exact_absdiff_def)

lemma ramp_read:
  "get_by_pixels ramp22 [ISlice (Slice (Some (PyInt 1)) None None), ISlice (Slice (Some (PyInt 0)) None None)]
     = Inr (RImage \<lparr>pixels = \<lparr>shape = [1, 2, 4], data = [2, 2, 2, 255, 3, 3, 3, 255]\<rparr>, domain = None\<rparr>)"
  apply (simp add: get_by_pixels_def nd_getitem_def select_def expand_index_def ramp22_def
        slice_indices_def slice_range_def clamp_bound_def)
  apply (simp add: fromarray_def Image_init_def upt_2 upt_4 upt_rec [of 1 2] full_slice_def
      slice_indices_def slice_range_def)
  done

theorem math_read_snaps_witness:
  "getitem exact_absdiff ramp22 (Tuple [ISlice (Slice (Some (PyFloat (1 / 2))) None None),
                          ISlice (Slice None (Some (PyFloat (3 / 4))) None)]) =
   Inr (RImage \<lparr>pixels = \<lparr>shape = [1, 2, 4], data = [2, 2, 2, 255, 3, 3, 3, 255]\<rparr>,
                 domain = None\<rparr>)"
proof -
  let ?xsl = "Slice (Some (PyFloat (1 / 2))) None None"
  let ?ysl = "Slice None (Some (PyFloat (3 / 4))) None"
  have d: "domain ramp22 = Some ramp_domain"
    and w: "width ramp22 = Inr 2" and h: "height ramp22 = Inr 2"
    by (simp_all add: ramp22_def width_def height_def shape_at_def)
  have nx: "start ?xsl \<noteq> None \<or> stop ?xsl \<noteq> None \<Longrightarrow> [0, 1 :: real] \<noteq> []"
    and ny: "start ?ysl \<noteq> None \<or> stop ?ysl \<noteq> None \<Longrightarrow> [0, 1 :: real] \<noteq> []"
    by simp_all
  have m: "float_bearing (ISlice ?xsl) \<or> float_bearing (ISlice ?ysl)"
    by simp
  have ev: "get_by_slices exact_absdiff ramp22 ramp_domain ?ysl ?xsl =
      Inr (RImage \<lparr>pixels = \<lparr>shape = [1, 2, 4], data = [2, 2, 2, 255, 3, 3, 3, 255]\<rparr>,
                    domain = None\<rparr>)"
    by (simp add: get_by_slices_def w h ramp_domain_22 ramp_rows ramp_snaps ramp_read)
  from math_read_snaps [OF d w h ramp_domain_22 ramp_rows nx ny m, of exact_absdiff] show ?thesis
    using d m ev by (auto simp: getitem_def get_by_points_def)
qed

text \<open>
  C1 as the specification words it fails on an image of width 0 with a domain:
  there is no pixel to snap to, the mathematical read raises IndexError, while a
  read by pixel slices returns the (empty) image.
\<close>

theorem math_read_fails_on_empty_grid:
  "getitem exact_absdiff zero_width (Tuple [ISlice (Slice (Some (PyFloat (1 / 2))) None None), ISlice full_slice]) =
     Inl IndexError \<and>
   getitem exact_absdiff zero_width (Tuple [ISlice (Slice (Some (PyInt 0)) None None), ISlice full_slice]) =
     Inr (RImage \<lparr>pixels = \<lparr>shape = [1, 0, 4], data = []\<rparr>, domain = None\<rparr>)"
  apply (simp add: getitem_def get_by_points_def zero_width_def get_by_slices_def width_def
      height_def shape_at_def flat_domain_def first_row_def first_column_def full_slice_def)
  apply (simp add: get_by_pixels_def nd_getitem_def select_def expand_index_def
        slice_indices_def slice_range_def clamp_bound_def full_slice_def fromarray_def
        Image_init_def upt_4)
  done

text \<open>
  The smallest difference is the smallest computed one. With differences rounded
  to multiples of 16, as \<^verbatim>\<open>float64\<close> rounds them at this magnitude, the
  coordinates \<open>- 10 ^ 17\<close> and \<open>10 ^ 17\<close> are equally far from the bound
  \<open>1 / 2\<close> and the snap takes pixel 0, although pixel 1 is nearer in exact
  arithmetic.
\<close>

lemma snap_follows_computed_difference:
  "snap spaced_absdiff [- 100000000000000000, 100000000000000000] (Some (PyFloat (1 / 2))) =
     Inr (Some (PyInt 0)) \<and>
   snap exact_absdiff [- 100000000000000000, 100000000000000000] (Some (PyFloat (1 / 2))) =
     Inr (Some (PyInt 1))"
  by (simp add: snap_def distances_def spaced_absdiff_def exact_absdiff_def round_def)

subsection \<open>What holds of negation and of reads without a domain\<close>

text \<open>
  The channel function of \<^verbatim>\<open>__neg__\<close> is the complement to 255 and its own
  inverse, and a square image is negated as C3 says: the defect is in the shape
  given to the alpha channel, not in the arithmetic.
\<close>

lemma vneg_eq: "vneg v = 255 - v"
proof -
  have "uint v < 256"
    using uint_bounded [of v] by simp
  then have "\<bar>uint v - 255\<bar> = 255 - uint v"
    by linarith
  then show ?thesis
    by (simp add: vneg_def)
qed

lemma vneg_vneg: "vneg (vneg v) = v"
  by (simp add: vneg_eq)

lemma unat_vneg: "unat (vneg v) = 255 - unat v"
proof -
  have "uint v < 256"
    using uint_bounded [of v] by simp
  then have "v \<le> 255"
    by (simp add: word_le_def)
  then have "unat (255 - v) = unat (255 :: u8) - unat v"
    by (rule unat_sub)
  then show ?thesis
    by (simp add: vneg_eq)
qed

lemma neg_square_example:
  "neg \<lparr>pixels = \<lparr>shape = [1, 1, 4], data = [10, 20, 30, 255]\<rparr>, domain = None\<rparr> =
   Inr \<lparr>pixels = \<lparr>shape = [1, 1, 4], data = [245, 235, 225, 255]\<rparr>, domain = None\<rparr>"
  apply (simp add: neg_def alpha_def color_def nd_getitem_def select_alpha select_color width_def
      height_def shape_at_def set_shape_def append_axis2_def nd_map_def Image_init_def)
  apply (simp add: vneg_def)
  done

text \<open>
  No step of a read raises RuntimeError but the missing domain: for an index that
  \<^verbatim>\<open>_flip_index\<close> accepts and that is not a pixel address, the read raises
  RuntimeError exactly when no domain is attached. This is the half of C7 the
  code keeps.
\<close>

lemma bindE_no_runtime:
  "m \<noteq> Inl RuntimeError \<Longrightarrow> (\<And>x. f x \<noteq> Inl RuntimeError) \<Longrightarrow> bindE m f \<noteq> Inl RuntimeError"
  by (cases m) simp_all

lemma as_index_no_runtime: "as_index b \<noteq> Inl RuntimeError"
  by (cases b rule: as_index.cases) simp_all

lemma slice_indices_no_runtime: "slice_indices s d \<noteq> Inl RuntimeError"
  unfolding slice_indices_def
  by (intro bindE_no_runtime as_index_no_runtime) (simp add: Let_def)

lemma resolve_no_runtime: "resolve c d \<noteq> Inl RuntimeError"
  by (cases c) (simp_all add: bindE_no_runtime slice_indices_no_runtime)

lemma resolve_all_no_runtime: "resolve_all cs ds \<noteq> Inl RuntimeError"
  by (induction cs ds rule: resolve_all.induct) (simp_all add: bindE_no_runtime resolve_no_runtime)

lemma expand_index_no_runtime: "expand_index idx n \<noteq> Inl RuntimeError"
  by (simp add: expand_index_def Let_def)

lemma nd_getitem_no_runtime: "nd_getitem a idx \<noteq> Inl RuntimeError"
  unfolding nd_getitem_def select_def
  by (intro bindE_no_runtime expand_index_no_runtime resolve_all_no_runtime) simp

lemma get_by_pixels_no_runtime: "get_by_pixels img idx \<noteq> Inl RuntimeError"
  unfolding get_by_pixels_def
  by (intro bindE_no_runtime nd_getitem_no_runtime) (simp add: fromarray_def Image_init_def)

lemma snap_no_runtime: "snap absdiff xs b \<noteq> Inl RuntimeError"
proof (cases b)
  case None
  then show ?thesis by (simp add: snap_def)
next
  case (Some v)
  then show ?thesis
    by (cases "distances absdiff xs v" rule: first_index.cases) (simp_all add: snap_def)
qed

lemma get_by_slices_no_runtime: "get_by_slices absdiff img dmn ys xs \<noteq> Inl RuntimeError"
  unfolding get_by_slices_def
  apply (intro bindE_no_runtime)
    apply (simp add: width_def shape_at_def)
   apply (simp add: height_def shape_at_def)
  apply (simp split: prod.splits)
  apply (intro allI impI bindE_no_runtime snap_no_runtime get_by_pixels_no_runtime)
   apply (simp_all add: first_row_def first_column_def)
  done

lemma math_read_runtime_error_iff:
  assumes "flip_index index = Inr idx" "\<not> is_pixel_addr idx"
  shows "getitem absdiff img index = Inl RuntimeError \<longleftrightarrow> domain img = None"
  using assms get_by_slices_no_runtime [of absdiff img]
  by (auto simp: getitem_def get_by_points_def split: option.splits list.splits icomp.splits)

end
